theory Spec2Isabelle
  imports Complex_Main
begin

section \<open>Data model\<close>

text \<open>
  The repository holds two revisions of the same command line tool: \<^verbatim>\<open>src/main.go\<close>
  and \<^verbatim>\<open>src/unnamed/part_000\<close> (the revision that threads a \<^verbatim>\<open>context.Context\<close>
  through the adapters). Names of the second revision carry the suffix \<open>_ctx\<close>.

  Go's \<^verbatim>\<open>float64\<close> prices are modelled as \<^typ>\<open>real\<close>: rounding, infinities and NaN are
  outside the model. Times are natural numbers of milliseconds since the start of the race.
\<close>

record CryptoPrice =
  USD :: real

record CoinMarketCapResponse =
  PriceUSD :: string

record CryptoCompareResponse =
  USD_cc :: real

text \<open>\<^verbatim>\<open>PriceResult\<close> of \<^verbatim>\<open>src/main.go\<close> (\<^verbatim>\<open>Duration\<close> in nanoseconds).\<close>

record PriceResult =
  Price :: real
  Source :: string
  Duration :: int

text \<open>\<^verbatim>\<open>PriceResult\<close> of \<^verbatim>\<open>src/unnamed/part_000\<close>, which has no duration.\<close>

record PriceResult_ctx =
  Price_ctx :: real
  Source_ctx :: string

text \<open>
  What \<^verbatim>\<open>http.Get\<close> (or \<^verbatim>\<open>http.DefaultClient.Do\<close>) hands back to an adapter: a transport
  error, or a response with its status code and the outcome of decoding the body as JSON
  into the adapter's Go type (\<open>None\<close> when the decoder returns an error).
\<close>

datatype 'a reply = TransportError | Response nat "'a option"

text \<open>
  A decoded \<^verbatim>\<open>map[string]CryptoPrice\<close> is a list of entries with distinct keys, in the order
  in which a \<^verbatim>\<open>range\<close> over the map would visit them; \<^verbatim>\<open>result[crypto]\<close> is \<^const>\<open>map_of\<close>.
\<close>

type_synonym coingecko_body = "(string \<times> CryptoPrice) list"

section \<open>The adapters of \<^verbatim>\<open>src/main.go\<close>\<close>

text \<open>
  \<^verbatim>\<open>fmt.Sscanf(s, "%f", &price)\<close>: the scanner skips leading blanks (but no newline), reads
  the longest prefix that has the shape of a floating-point token (sign, digits, fraction, exponent) and converts
  it; whatever follows the token is left unread and is no error. \<open>None\<close> is a failed scan,
  which leaves \<^verbatim>\<open>price\<close> at its zero value. The model covers decimal tokens with an optional
  decimal exponent; hexadecimal mantissas, binary exponents, digit-separating underscores,
  the tokens \<^verbatim>\<open>Inf\<close> and \<^verbatim>\<open>NaN\<close>, blanks beyond ASCII and values beyond the range of
  \<^verbatim>\<open>float64\<close> are outside it.
\<close>

definition is_digit :: "char \<Rightarrow> bool" where
  "is_digit c = (c \<in> set ''0123456789'')"

definition digit_val :: "char \<Rightarrow> nat" where
  "digit_val c = of_char c - of_char CHR ''0''"

definition digits_val :: "string \<Rightarrow> nat" where
  "digits_val ds = foldl (\<lambda>n c. 10 * n + digit_val c) 0 ds"

definition accept_sign :: "string \<Rightarrow> bool \<times> string" where
  "accept_sign s =
     (case s of
        c # cs \<Rightarrow> if c = CHR ''-'' then (True, cs) else if c = CHR ''+'' then (False, cs) else (False, s)
      | [] \<Rightarrow> (False, s))"

definition Sscanf_f :: "string \<Rightarrow> real option" where
  "Sscanf_f s =
     (let s0 = dropWhile (\<lambda>c. c \<in> set [CHR '' '', CHR 0x09, CHR 0x0B, CHR 0x0C, CHR 0x0D]) s;
          (neg, s1) = accept_sign s0;
          ip = takeWhile is_digit s1;
          s2 = dropWhile is_digit s1;
          (fp, s3) = (case s2 of
                        c # cs \<Rightarrow> if c = CHR ''.'' then (takeWhile is_digit cs, dropWhile is_digit cs)
                                  else ([], s2)
                      | [] \<Rightarrow> ([], s2));
          mant = (real (digits_val (ip @ fp)) / 10 ^ length fp);
          sgn = (\<lambda>x. if neg then - x else x)
      in if ip = [] \<and> fp = [] then None
         else (case s3 of
                 c # cs \<Rightarrow>
                   if c = CHR ''e'' \<or> c = CHR ''E'' then
                     (let (eneg, s4) = accept_sign cs; ed = takeWhile is_digit s4
                      in if ed = [] then None
                         else Some (sgn (if eneg then mant / 10 ^ digits_val ed
                                         else mant * 10 ^ digits_val ed)))
                   else Some (sgn mant)
               | [] \<Rightarrow> Some (sgn mant)))"

text \<open>
  Each adapter is a function on the contents of the result channel: it appends what the
  goroutine sends. \<open>duration\<close> is the measured \<^verbatim>\<open>time.Since(start)\<close>. None of the three
  looks at the status code of the response.
\<close>

definition fetchCryptoPriceFromCoingecko ::
  "string \<Rightarrow> int \<Rightarrow> coingecko_body reply \<Rightarrow> PriceResult list \<Rightarrow> PriceResult list" where
  "fetchCryptoPriceFromCoingecko crypto duration resp ch =
     (case resp of
        TransportError \<Rightarrow> ch @ [\<lparr>Price = 0, Source = ''CoinGecko'', Duration = duration\<rparr>]
      | Response status body \<Rightarrow>
          (case body of
             None \<Rightarrow> ch @ [\<lparr>Price = 0, Source = ''CoinGecko'', Duration = duration\<rparr>]
           | Some result \<Rightarrow>
               (case map_of result crypto of
                  Some price \<Rightarrow> ch @ [\<lparr>Price = USD price, Source = ''CoinGecko'', Duration = duration\<rparr>]
                | None \<Rightarrow> ch @ [\<lparr>Price = 0, Source = ''CoinGecko'', Duration = duration\<rparr>])))"

definition fetchCryptoPriceFromCoinMarketCap ::
  "string \<Rightarrow> int \<Rightarrow> CoinMarketCapResponse list reply \<Rightarrow> PriceResult list \<Rightarrow> PriceResult list" where
  "fetchCryptoPriceFromCoinMarketCap crypto duration resp ch =
     (case resp of
        TransportError \<Rightarrow> ch @ [\<lparr>Price = 0, Source = ''CoinMarketCap'', Duration = duration\<rparr>]
      | Response status body \<Rightarrow>
          (case body of
             None \<Rightarrow> ch @ [\<lparr>Price = 0, Source = ''CoinMarketCap'', Duration = duration\<rparr>]
           | Some result \<Rightarrow>
               (case result of
                  r0 # _ \<Rightarrow>
                    (let price = (case Sscanf_f (PriceUSD r0) of Some p \<Rightarrow> p | None \<Rightarrow> 0)
                     in ch @ [\<lparr>Price = price, Source = ''CoinMarketCap'', Duration = duration\<rparr>])
                | [] \<Rightarrow> ch @ [\<lparr>Price = 0, Source = ''CoinMarketCap'', Duration = duration\<rparr>])))"

definition fetchCryptoPriceFromCryptoCompare ::
  "string \<Rightarrow> int \<Rightarrow> CryptoCompareResponse reply \<Rightarrow> PriceResult list \<Rightarrow> PriceResult list" where
  "fetchCryptoPriceFromCryptoCompare crypto duration resp ch =
     (case resp of
        TransportError \<Rightarrow> ch @ [\<lparr>Price = 0, Source = ''CryptoCompare'', Duration = duration\<rparr>]
      | Response status body \<Rightarrow>
          (case body of
             None \<Rightarrow> ch @ [\<lparr>Price = 0, Source = ''CryptoCompare'', Duration = duration\<rparr>]
           | Some result \<Rightarrow>
               ch @ [\<lparr>Price = USD_cc result, Source = ''CryptoCompare'', Duration = duration\<rparr>]))"

section \<open>The orchestrator of \<^verbatim>\<open>src/main.go\<close>\<close>

text \<open>
  The channel is the list of sends in the order in which they happen, each with its time.
  \<open>range_ch wg now ch\<close> is the loop \<^verbatim>\<open>for result := range ch\<close>: \<open>wg\<close> counts the adapters that
  have not finished yet, \<open>now\<close> is the current time. The loop returns the first result with a
  positive price. When the channel is drained, it ends only if the channel has been closed,
  which the closing goroutine does once \<open>wg\<close> is zero; then the sentinel is returned.
  Otherwise an adapter never finishes and the loop blocks for ever: the value is \<open>None\<close>.
  The first component of the value is the time of the return.
\<close>

fun range_ch :: "nat \<Rightarrow> nat \<Rightarrow> (nat \<times> PriceResult) list \<Rightarrow> (nat \<times> PriceResult) option" where
  "range_ch wg now [] =
     (if wg = 0 then Some (now, \<lparr>Price = 0, Source = ''None'', Duration = 0\<rparr>) else None)"
| "range_ch wg now ((t, result) # ch) =
     (if Price result > 0 then Some (max now t, result)
      else range_ch (wg - 1) (max now t) ch)"

text \<open>\<^verbatim>\<open>wg.Add(3)\<close>, three goroutines, then the loop, from time 0.\<close>

definition fetchCryptoPriceConcurrently_on :: "(nat \<times> PriceResult) list \<Rightarrow> (nat \<times> PriceResult) option" where
  "fetchCryptoPriceConcurrently_on ch = range_ch 3 0 ch"

text \<open>
  An adapter's request either never returns (\<open>None\<close>) or returns after some time with a
  reply. The three goroutines start with the race, so the measured duration of a request
  that returns after \<open>t\<close> milliseconds is \<open>t\<close> milliseconds, in nanoseconds.
\<close>

type_synonym 'a call = "(nat \<times> 'a reply) option"

record race_env =
  new_request :: "string \<Rightarrow> bool"
  coingecko_call :: "coingecko_body call"
  coinmarketcap_call :: "CoinMarketCapResponse list call"
  cryptocompare_call :: "CryptoCompareResponse call"

definition sends ::
  "'a call \<Rightarrow> (int \<Rightarrow> 'a reply \<Rightarrow> PriceResult list \<Rightarrow> PriceResult list) \<Rightarrow> (nat \<times> PriceResult) list" where
  "sends c adapter =
     (case c of
        None \<Rightarrow> []
      | Some (t, resp) \<Rightarrow> map (Pair t) (adapter (int t * 1000000) resp []))"

text \<open>
  The whole race: the three adapters send when their requests return, the channel holds the
  sends in order of time (sends at the same instant in the order in which the goroutines were
  started, which is one of the orders the scheduler may produce).
\<close>

definition channel :: "string \<Rightarrow> race_env \<Rightarrow> (nat \<times> PriceResult) list" where
  "channel crypto env =
     sort_key fst
       (sends (coingecko_call env) (fetchCryptoPriceFromCoingecko crypto) @
        sends (coinmarketcap_call env) (fetchCryptoPriceFromCoinMarketCap crypto) @
        sends (cryptocompare_call env) (fetchCryptoPriceFromCryptoCompare crypto))"

definition fetchCryptoPriceConcurrently :: "string \<Rightarrow> race_env \<Rightarrow> (nat \<times> PriceResult) option" where
  "fetchCryptoPriceConcurrently crypto env = fetchCryptoPriceConcurrently_on (channel crypto env)"

section \<open>The adapter and the parsers of \<^verbatim>\<open>src/unnamed/part_000\<close>\<close>

datatype error = UnsupportedType | DecodeError | InvalidResponse

text \<open>
  \<^verbatim>\<open>body := json.NewDecoder(resp.Body).Decode\<close> is a method value, and \<^verbatim>\<open>json.Marshal\<close> of a
  function value returns an \<^verbatim>\<open>UnsupportedTypeError\<close>, whatever the response holds.
\<close>

definition json_Marshal_func :: "error + 'd" where
  "json_Marshal_func = Inl UnsupportedType"

text \<open>
  \<open>request_ok\<close> says whether \<^verbatim>\<open>http.NewRequestWithContext\<close> accepted the URL; \<open>resp\<close> is what
  \<^verbatim>\<open>http.DefaultClient.Do\<close> returns (a cancelled context makes it a transport error).
\<close>

definition fetchCryptoPrice ::
  "bool \<Rightarrow> 'a reply \<Rightarrow> ('d \<Rightarrow> error + real) \<Rightarrow> string \<Rightarrow> PriceResult_ctx list \<Rightarrow> PriceResult_ctx list" where
  "fetchCryptoPrice request_ok resp parseFunc source ch =
     (if \<not> request_ok then ch @ [\<lparr>Price_ctx = 0, Source_ctx = source\<rparr>]
      else case resp of
        TransportError \<Rightarrow> ch @ [\<lparr>Price_ctx = 0, Source_ctx = source\<rparr>]
      | Response status body \<Rightarrow>
          if status \<noteq> 200 then ch @ [\<lparr>Price_ctx = 0, Source_ctx = source\<rparr>]
          else (case json_Marshal_func of
                  Inl err \<Rightarrow> ch @ [\<lparr>Price_ctx = 0, Source_ctx = source\<rparr>]
                | Inr data \<Rightarrow>
                    (case parseFunc data of
                       Inl err \<Rightarrow> ch @ [\<lparr>Price_ctx = 0, Source_ctx = source\<rparr>]
                     | Inr price \<Rightarrow> ch @ [\<lparr>Price_ctx = price, Source_ctx = source\<rparr>])))"

text \<open>
  The parsers take the bytes as what \<^verbatim>\<open>json.Unmarshal\<close> makes of them: \<open>None\<close> when it
  returns an error, the decoded Go value otherwise.
\<close>

definition parseCoingecko :: "coingecko_body option \<Rightarrow> error + real" where
  "parseCoingecko data =
     (case data of
        None \<Rightarrow> Inl DecodeError
      | Some result \<Rightarrow> (case result of (k, v) # _ \<Rightarrow> Inr (USD v) | [] \<Rightarrow> Inl InvalidResponse))"

definition parseCoinMarketCap :: "CoinMarketCapResponse list option \<Rightarrow> error + real" where
  "parseCoinMarketCap data =
     (case data of
        None \<Rightarrow> Inl DecodeError
      | Some result \<Rightarrow>
          (case result of
             r0 # _ \<Rightarrow> Inr (case Sscanf_f (PriceUSD r0) of Some p \<Rightarrow> p | None \<Rightarrow> 0)
           | [] \<Rightarrow> Inl InvalidResponse))"

definition parseCryptoCompare :: "CryptoCompareResponse option \<Rightarrow> error + real" where
  "parseCryptoCompare data =
     (case data of
        None \<Rightarrow> Inl DecodeError
      | Some result \<Rightarrow> Inr (USD_cc result))"

section \<open>The orchestrator of \<^verbatim>\<open>src/unnamed/part_000\<close>\<close>

text \<open>
  \<^verbatim>\<open>select\<close>: the first send is received if it happens before the timer of 10 seconds fires,
  and the context is cancelled at that moment; otherwise the timer fires, \<^verbatim>\<open>result\<close> keeps
  its zero value and the context is cancelled at 10 seconds. (A send at exactly 10 seconds
  races with the timer; the model lets the timer win.) The value is the result, the time of
  the cancellation and what is left in the channel.
\<close>

definition select_ctx ::
  "(nat \<times> PriceResult_ctx) list \<Rightarrow> PriceResult_ctx \<times> nat \<times> (nat \<times> PriceResult_ctx) list" where
  "select_ctx ch =
     (case ch of
        (t, r) # rest \<Rightarrow>
          if t < 10000 then (r, t, rest)
          else (\<lparr>Price_ctx = 0, Source_ctx = []\<rparr>, 10000, ch)
      | [] \<Rightarrow> (\<lparr>Price_ctx = 0, Source_ctx = []\<rparr>, 10000, []))"

text \<open>The loop over the closed channel: the first positive price replaces \<^verbatim>\<open>result\<close>.\<close>

fun drain :: "PriceResult_ctx \<Rightarrow> PriceResult_ctx list \<Rightarrow> PriceResult_ctx" where
  "drain result [] = result"
| "drain result (priceResult # ch) =
     (if Price_ctx priceResult > 0 then priceResult else drain result ch)"

record outcome_ctx =
  cancelled_at :: nat
  returned_at :: nat
  returned :: PriceResult_ctx

text \<open>
  After the \<^verbatim>\<open>select\<close>, \<^verbatim>\<open>wg.Wait()\<close> returns once all three adapters have sent and finished;
  with fewer than three sends it blocks for ever (\<open>None\<close>). The function returns at the later
  of the cancellation and the last send.
\<close>

definition fetchCryptoPriceConcurrently_ctx_on :: "(nat \<times> PriceResult_ctx) list \<Rightarrow> outcome_ctx option" where
  "fetchCryptoPriceConcurrently_ctx_on ch =
     (let (result, tc, rest) = select_ctx ch
      in if length ch < 3 then None
         else Some \<lparr>cancelled_at = tc,
                    returned_at = fold max (map fst ch) tc,
                    returned = drain result (map snd rest)\<rparr>)"

text \<open>
  The whole race. The context is cancelled when the first adapter sends or, failing that
  within 10 seconds, by the timer. A request that has not returned by then is abandoned:
  \<^verbatim>\<open>Do\<close> returns the context's error, at once in this model, and the adapter sends after the
  adapters that finished on their own. An adapter whose URL is refused sends at time 0.
\<close>

definition coingeckoAPI :: "string \<Rightarrow> string" where
  "coingeckoAPI crypto = ''https://api.coingecko.com/api/v3/simple/price?ids='' @ crypto @ ''&vs_currencies=usd''"

definition coinmarketcapAPI :: "string \<Rightarrow> string" where
  "coinmarketcapAPI crypto = ''https://api.coinmarketcap.com/v1/ticker/'' @ crypto @ ''/''"

definition cryptocompareAPI :: "string \<Rightarrow> string" where
  "cryptocompareAPI crypto = ''https://min-api.cryptocompare.com/data/price?fsym='' @ crypto @ ''&tsyms=USD''"

definition first_send :: "bool \<Rightarrow> 'a call \<Rightarrow> nat option" where
  "first_send request_ok c = (if \<not> request_ok then Some 0 else map_option fst c)"

definition sends_ctx ::
  "nat \<Rightarrow> bool \<Rightarrow> 'a call \<Rightarrow> ('d \<Rightarrow> error + real) \<Rightarrow> string \<Rightarrow> (nat \<times> PriceResult_ctx) list" where
  "sends_ctx tc request_ok c parseFunc source =
     (if \<not> request_ok
      then map (Pair 0) (fetchCryptoPrice False (TransportError :: 'a reply) parseFunc source [])
      else case c of
        Some (t, resp) \<Rightarrow>
          if t \<le> tc then map (Pair t) (fetchCryptoPrice True resp parseFunc source []) else []
      | None \<Rightarrow> [])"

definition abandoned_ctx ::
  "nat \<Rightarrow> bool \<Rightarrow> 'a call \<Rightarrow> ('d \<Rightarrow> error + real) \<Rightarrow> string \<Rightarrow> (nat \<times> PriceResult_ctx) list" where
  "abandoned_ctx tc request_ok c parseFunc source =
     (if request_ok \<and> (case c of Some (t, resp) \<Rightarrow> tc < t | None \<Rightarrow> True)
      then map (Pair tc) (fetchCryptoPrice True (TransportError :: 'a reply) parseFunc source [])
      else [])"

definition first_sends :: "string \<Rightarrow> race_env \<Rightarrow> nat list" where
  "first_sends crypto env =
     List.map_filter id
       [first_send (new_request env (coingeckoAPI crypto)) (coingecko_call env),
        first_send (new_request env (coinmarketcapAPI crypto)) (coinmarketcap_call env),
        first_send (new_request env (cryptocompareAPI crypto)) (cryptocompare_call env)]"

definition context_cancelled :: "string \<Rightarrow> race_env \<Rightarrow> nat" where
  "context_cancelled crypto env = fold min (first_sends crypto env) 10000"

definition channel_ctx :: "string \<Rightarrow> race_env \<Rightarrow> (nat \<times> PriceResult_ctx) list" where
  "channel_ctx crypto env =
     (let tc = context_cancelled crypto env;
          ok1 = new_request env (coingeckoAPI crypto);
          ok2 = new_request env (coinmarketcapAPI crypto);
          ok3 = new_request env (cryptocompareAPI crypto)
      in sort_key fst
           (sends_ctx tc ok1 (coingecko_call env) parseCoingecko ''CoinGecko'' @
            sends_ctx tc ok2 (coinmarketcap_call env) parseCoinMarketCap ''CoinMarketCap'' @
            sends_ctx tc ok3 (cryptocompare_call env) parseCryptoCompare ''CryptoCompare'') @
         (abandoned_ctx tc ok1 (coingecko_call env) parseCoingecko ''CoinGecko'' @
          abandoned_ctx tc ok2 (coinmarketcap_call env) parseCoinMarketCap ''CoinMarketCap'' @
          abandoned_ctx tc ok3 (cryptocompare_call env) parseCryptoCompare ''CryptoCompare''))"

definition fetchCryptoPriceConcurrently_ctx :: "string \<Rightarrow> race_env \<Rightarrow> outcome_ctx option" where
  "fetchCryptoPriceConcurrently_ctx crypto env =
     fetchCryptoPriceConcurrently_ctx_on (channel_ctx crypto env)"

section \<open>Example races\<close>

text \<open>All three requests fail in transport, after 100, 200 and 300 milliseconds.\<close>

definition env_all_fail :: race_env where
  "env_all_fail =
     \<lparr>new_request = (\<lambda>url. True),
      coingecko_call = Some (100, TransportError),
      coinmarketcap_call = Some (200, TransportError),
      cryptocompare_call = Some (300, TransportError)\<rparr>"




text \<open>No request ever returns.\<close>

definition env_hang :: race_env where
  "env_hang =
     \<lparr>new_request = (\<lambda>url. True),
      coingecko_call = None, coinmarketcap_call = None, cryptocompare_call = None\<rparr>"

text \<open>All three requests fail in transport, but only after 20, 25 and 30 seconds.\<close>

definition env_slow :: race_env where
  "env_slow =
     \<lparr>new_request = (\<lambda>url. True),
      coingecko_call = Some (20000, TransportError),
      coinmarketcap_call = Some (25000, TransportError),
      cryptocompare_call = Some (30000, TransportError)\<rparr>"





text \<open>All three providers answer with status 200 and the price 42000.5.\<close>

definition env_all_ok :: race_env where
  "env_all_ok =
     \<lparr>new_request = (\<lambda>url. True),
      coingecko_call = Some (100, Response 200 (Some [(''bitcoin'', \<lparr>USD = 42000.5\<rparr>)])),
      coinmarketcap_call = Some (200, Response 200 (Some [\<lparr>PriceUSD = ''42000.50''\<rparr>])),
      cryptocompare_call = Some (300, Response 200 (Some \<lparr>USD_cc = 42000.5\<rparr>))\<rparr>"

section \<open>Properties\<close>

subsection \<open>The sentinel of \<^verbatim>\<open>src/main.go\<close>\<close>

lemma range_ch_none:
  "find (\<lambda>d. Price (snd d) > 0) ch = None \<Longrightarrow>
   range_ch wg now ch =
     (if wg \<le> length ch
      then Some (fold max (map fst ch) now, \<lparr>Price = 0, Source = ''None'', Duration = 0\<rparr>)
      else None)"
proof (induction ch arbitrary: wg now)
  case Nil
  then show ?case by simp
next
  case (Cons d ch)
  obtain u r where d: "d = (u, r)" by (cases d)
  from Cons.prems d have np: "\<not> Price r > 0" and rest: "find (\<lambda>d. Price (snd d) > 0) ch = None"
    by (auto split: if_splits)
  show ?case using Cons.IH [OF rest, of "wg - 1" "max now u"] np d
    by (auto simp: max.commute)
qed

lemma Coingecko_sends_one:
  "\<exists>p. fetchCryptoPriceFromCoingecko crypto d resp ch = ch @ [\<lparr>Price = p, Source = ''CoinGecko'', Duration = d\<rparr>]"
  by (simp add: fetchCryptoPriceFromCoingecko_def split: reply.split option.split)

lemma CoinMarketCap_sends_one:
  "\<exists>p. fetchCryptoPriceFromCoinMarketCap crypto d resp ch = ch @ [\<lparr>Price = p, Source = ''CoinMarketCap'', Duration = d\<rparr>]"
  by (simp add: fetchCryptoPriceFromCoinMarketCap_def Let_def split: reply.split option.split list.split)

lemma CryptoCompare_sends_one:
  "\<exists>p. fetchCryptoPriceFromCryptoCompare crypto d resp ch = ch @ [\<lparr>Price = p, Source = ''CryptoCompare'', Duration = d\<rparr>]"
  by (simp add: fetchCryptoPriceFromCryptoCompare_def split: reply.split option.split)

lemma sends_cases:
  assumes "\<And>d resp. \<exists>p. adapter d resp [] = [\<lparr>Price = p, Source = name, Duration = d\<rparr>]"
  shows "sends c adapter = [] \<and> c = None \<or>
         (\<exists>t resp p. c = Some (t, resp) \<and>
            sends c adapter = [(t, \<lparr>Price = p, Source = name, Duration = int t * 1000000\<rparr>)])"
proof (cases c)
  case None
  then show ?thesis by (simp add: sends_def)
next
  case (Some a)
  obtain t resp where a: "a = (t, resp)" by (cases a)
  from assms [of "int t * 1000000" resp] obtain p where
    "adapter (int t * 1000000) resp [] = [\<lparr>Price = p, Source = name, Duration = int t * 1000000\<rparr>]" ..
  with Some a show ?thesis by (simp add: sends_def)
qed

lemma length_sends:
  "length (sends c (fetchCryptoPriceFromCoingecko crypto)) = (if c = None then 0 else 1)"
  "length (sends c2 (fetchCryptoPriceFromCoinMarketCap crypto)) = (if c2 = None then 0 else 1)"
  "length (sends c3 (fetchCryptoPriceFromCryptoCompare crypto)) = (if c3 = None then 0 else 1)"
  using sends_cases [of "fetchCryptoPriceFromCoingecko crypto" "''CoinGecko''" c]
        Coingecko_sends_one [of crypto _ _ "[]"]
        sends_cases [of "fetchCryptoPriceFromCoinMarketCap crypto" "''CoinMarketCap''" c2]
        CoinMarketCap_sends_one [of crypto _ _ "[]"]
        sends_cases [of "fetchCryptoPriceFromCryptoCompare crypto" "''CryptoCompare''" c3]
        CryptoCompare_sends_one [of crypto _ _ "[]"]
  by auto

lemma Source_sends:
  "d \<in> set (sends c (fetchCryptoPriceFromCoingecko crypto)) \<Longrightarrow> Source (snd d) = ''CoinGecko''"
  "d \<in> set (sends c2 (fetchCryptoPriceFromCoinMarketCap crypto)) \<Longrightarrow> Source (snd d) = ''CoinMarketCap''"
  "d \<in> set (sends c3 (fetchCryptoPriceFromCryptoCompare crypto)) \<Longrightarrow> Source (snd d) = ''CryptoCompare''"
  using sends_cases [of "fetchCryptoPriceFromCoingecko crypto" "''CoinGecko''" c]
        Coingecko_sends_one [of crypto _ _ "[]"]
        sends_cases [of "fetchCryptoPriceFromCoinMarketCap crypto" "''CoinMarketCap''" c2]
        CoinMarketCap_sends_one [of crypto _ _ "[]"]
        sends_cases [of "fetchCryptoPriceFromCryptoCompare crypto" "''CryptoCompare''" c3]
        CryptoCompare_sends_one [of crypto _ _ "[]"]
  by auto

lemma length_channel:
  "length (channel crypto env) =
     (if coingecko_call env = None then 0 else 1) + (if coinmarketcap_call env = None then 0 else 1)
      + (if cryptocompare_call env = None then 0 else 1)"
  unfolding channel_def by (simp add: length_sends)

lemma Source_channel:
  "d \<in> set (channel crypto env) \<Longrightarrow> Source (snd d) \<in> {''CoinGecko'', ''CoinMarketCap'', ''CryptoCompare''}"
  unfolding channel_def by (auto dest: Source_sends)

text \<open>
  Claim C10. In \<^verbatim>\<open>src/main.go\<close>, when all three requests return and no adapter sends a
  quote with a positive price, \<^verbatim>\<open>fetchCryptoPriceConcurrently\<close> returns exactly
  \<^verbatim>\<open>PriceResult{0, "None", 0}\<close>; and no adapter ever sends a result whose source is
  \<^verbatim>\<open>"None"\<close>, so the sentinel cannot be mistaken for a provider's quote.
\<close>

theorem sentinel_when_no_positive_quote:
  assumes "coingecko_call env \<noteq> None" and "coinmarketcap_call env \<noteq> None"
    and "cryptocompare_call env \<noteq> None"
    and "\<forall>d \<in> set (channel crypto env). \<not> Price (snd d) > 0"
  shows "(\<exists>t. fetchCryptoPriceConcurrently crypto env =
              Some (t, \<lparr>Price = 0, Source = ''None'', Duration = 0\<rparr>)) \<and>
         (\<forall>d \<in> set (channel crypto env). Source (snd d) \<noteq> ''None'')"
proof
  have len: "length (channel crypto env) = 3"
    using assms(1-3) by (simp add: length_channel)
  have "find (\<lambda>d. Price (snd d) > 0) (channel crypto env) = None"
    using assms(4) by (auto simp: find_None_iff)
  from range_ch_none [OF this, of 3 0] len
  show "\<exists>t. fetchCryptoPriceConcurrently crypto env =
              Some (t, \<lparr>Price = 0, Source = ''None'', Duration = 0\<rparr>)"
    by (simp add: fetchCryptoPriceConcurrently_def fetchCryptoPriceConcurrently_on_def)
next
  show "\<forall>d \<in> set (channel crypto env). Source (snd d) \<noteq> ''None''"
    using Source_channel by fastforce
qed

lemma channel_all_fail:
  "channel ''bitcoin'' env_all_fail =
     [(100, \<lparr>Price = 0, Source = ''CoinGecko'', Duration = 100000000\<rparr>),
      (200, \<lparr>Price = 0, Source = ''CoinMarketCap'', Duration = 200000000\<rparr>),
      (300, \<lparr>Price = 0, Source = ''CryptoCompare'', Duration = 300000000\<rparr>)]"
  by (simp add: channel_def env_all_fail_def sends_def fetchCryptoPriceFromCoingecko_def
      fetchCryptoPriceFromCoinMarketCap_def fetchCryptoPriceFromCryptoCompare_def)

theorem sentinel_when_no_positive_quote_witness:
  "\<exists>t. fetchCryptoPriceConcurrently ''bitcoin'' env_all_fail =
          Some (t, \<lparr>Price = 0, Source = ''None'', Duration = 0\<rparr>)"
proof -
  have 1: "coingecko_call env_all_fail \<noteq> None" by (simp add: env_all_fail_def)
  have 2: "coinmarketcap_call env_all_fail \<noteq> None" by (simp add: env_all_fail_def)
  have 3: "cryptocompare_call env_all_fail \<noteq> None" by (simp add: env_all_fail_def)
  have 4: "\<forall>d \<in> set (channel ''bitcoin'' env_all_fail). \<not> Price (snd d) > 0"
    by (simp add: channel_all_fail)
  from sentinel_when_no_positive_quote [OF 1 2 3 4] show ?thesis by (rule conjunct1)
qed

subsection \<open>Selection of the winner\<close>


lemma drain_filter:
  "drain result ch = (case filter (\<lambda>r. Price_ctx r > 0) ch of [] \<Rightarrow> result | q # _ \<Rightarrow> q)"
  by (induction ch) auto

lemma ctx_on_returned:
  "length ch \<ge> 3 \<Longrightarrow>
   \<exists>out. fetchCryptoPriceConcurrently_ctx_on ch = Some out \<and>
     returned out = drain (fst (select_ctx ch)) (map snd (snd (snd (select_ctx ch)))) \<and>
     cancelled_at out = fst (snd (select_ctx ch)) \<and>
     returned_at out = fold max (map fst ch) (fst (snd (select_ctx ch)))"
  by (simp add: fetchCryptoPriceConcurrently_ctx_on_def split: prod.split)








subsection \<open>Waiting for the adapters\<close>

lemma fold_max_ge: "(now::nat) \<le> fold max ts now"
  by (induction ts arbitrary: now) (auto intro: order_trans [OF max.cobounded2])

lemma fold_max_ge_all: "\<forall>t \<in> set ts. t \<le> fold max ts (now::nat)"
proof (induction ts arbitrary: now)
  case Nil
  then show ?case by simp
next
  case (Cons a ts)
  have "a \<le> max a now" by simp
  also have "\<dots> \<le> fold max ts (max a now)" by (rule fold_max_ge)
  finally show ?case using Cons.IH by simp
qed

lemma channel_ctx_all_fail:
  "channel_ctx ''bitcoin'' env_all_fail =
     [(100, \<lparr>Price_ctx = 0, Source_ctx = ''CoinGecko''\<rparr>),
      (100, \<lparr>Price_ctx = 0, Source_ctx = ''CoinMarketCap''\<rparr>),
      (100, \<lparr>Price_ctx = 0, Source_ctx = ''CryptoCompare''\<rparr>)]"
  by (simp add: channel_ctx_def context_cancelled_def first_sends_def List.map_filter_simps first_send_def
      env_all_fail_def sends_ctx_def abandoned_ctx_def fetchCryptoPrice_def)

text \<open>
  Claim C2. When all three adapters complete with a price \<open>\<le> 0\<close> (in
  \<^verbatim>\<open>src/unnamed/part_000\<close>: before the timer of 10 seconds), the orchestrator returns no
  usable quote: the sentinel in \<^verbatim>\<open>src/main.go\<close>, the first received quote, whose price is
  not positive, in \<^verbatim>\<open>src/unnamed/part_000\<close>. It returns no earlier than the last send, and
  while fewer than three adapters have sent (and none of the sends is positive) it does not
  return at all.
\<close>

theorem all_fail_returns_after_all_adapters:
  "(length ch = 3 \<and> (\<forall>d \<in> set ch. \<not> Price (snd d) > 0) \<longrightarrow>
      (\<exists>t. fetchCryptoPriceConcurrently_on ch =
              Some (t, \<lparr>Price = 0, Source = ''None'', Duration = 0\<rparr>) \<and>
           (\<forall>d \<in> set ch. fst d \<le> t))) \<and>
   (length ch < 3 \<and> (\<forall>d \<in> set ch. \<not> Price (snd d) > 0) \<longrightarrow>
      fetchCryptoPriceConcurrently_on ch = None) \<and>
   (length chc = 3 \<and> (\<forall>d \<in> set chc. \<not> Price_ctx (snd d) > 0 \<and> fst d < 10000) \<longrightarrow>
      (\<exists>out. fetchCryptoPriceConcurrently_ctx_on chc = Some out \<and>
             returned out = snd (hd chc) \<and> \<not> Price_ctx (returned out) > 0 \<and>
             (\<forall>d \<in> set chc. fst d \<le> returned_at out))) \<and>
   (length chc < 3 \<longrightarrow> fetchCryptoPriceConcurrently_ctx_on chc = None)"
proof (intro conjI impI)
  assume a: "length ch = 3 \<and> (\<forall>d \<in> set ch. \<not> Price (snd d) > 0)"
  then have none: "find (\<lambda>d. Price (snd d) > 0) ch = None"
    by (auto simp: find_None_iff)
  have "\<forall>d \<in> set ch. fst d \<le> fold max (map fst ch) 0"
    using fold_max_ge_all [of "map fst ch" 0] by simp
  with range_ch_none [OF none, of 3 0] a
  show "\<exists>t. fetchCryptoPriceConcurrently_on ch =
              Some (t, \<lparr>Price = 0, Source = ''None'', Duration = 0\<rparr>) \<and>
           (\<forall>d \<in> set ch. fst d \<le> t)"
    by (simp add: fetchCryptoPriceConcurrently_on_def)
next
  assume a: "length ch < 3 \<and> (\<forall>d \<in> set ch. \<not> Price (snd d) > 0)"
  then have none: "find (\<lambda>d. Price (snd d) > 0) ch = None"
    by (auto simp: find_None_iff)
  from range_ch_none [OF none, of 3 0] a
  show "fetchCryptoPriceConcurrently_on ch = None"
    by (simp add: fetchCryptoPriceConcurrently_on_def)
next
  assume a: "length chc = 3 \<and> (\<forall>d \<in> set chc. \<not> Price_ctx (snd d) > 0 \<and> fst d < 10000)"
  then obtain d rest where chc: "chc = d # rest" by (cases chc) auto
  obtain t r where d: "d = (t, r)" by (cases d)
  from a chc d have t: "t < 10000" by simp
  then have sel: "select_ctx chc = (r, t, rest)"
    by (simp add: select_ctx_def chc d)
  have "filter (\<lambda>r. Price_ctx r > 0) (map snd rest) = []"
    using a chc by (auto simp: filter_empty_conv)
  then have dr: "drain r (map snd rest) = r"
    by (simp add: drain_filter)
  have "3 \<le> length chc" using a by simp
  from ctx_on_returned [OF this] obtain out where
    out: "fetchCryptoPriceConcurrently_ctx_on chc = Some out"
      "returned out = drain (fst (select_ctx chc)) (map snd (snd (snd (select_ctx chc))))"
      "returned_at out = fold max (map fst chc) (fst (snd (select_ctx chc)))"
    by blast
  have ret: "returned out = snd (hd chc)" using out(2) sel dr chc d by simp
  have "\<not> Price_ctx (returned out) > 0" using ret a chc by simp
  moreover have "\<forall>d \<in> set chc. fst d \<le> returned_at out"
    using fold_max_ge_all [of "map fst chc" "fst (snd (select_ctx chc))"] out(3) by simp
  ultimately show "\<exists>out. fetchCryptoPriceConcurrently_ctx_on chc = Some out \<and>
             returned out = snd (hd chc) \<and> \<not> Price_ctx (returned out) > 0 \<and>
             (\<forall>d \<in> set chc. fst d \<le> returned_at out)"
    using out(1) ret by blast
next
  assume "length chc < 3"
  then show "fetchCryptoPriceConcurrently_ctx_on chc = None"
    by (simp add: fetchCryptoPriceConcurrently_ctx_on_def split: prod.split)
qed

theorem all_fail_returns_after_all_adapters_witness:
  "(\<exists>t. fetchCryptoPriceConcurrently_on (channel ''bitcoin'' env_all_fail) =
          Some (t, \<lparr>Price = 0, Source = ''None'', Duration = 0\<rparr>) \<and> 300 \<le> t) \<and>
   (\<exists>out. fetchCryptoPriceConcurrently_ctx_on (channel_ctx ''bitcoin'' env_all_fail) = Some out \<and>
      returned out = \<lparr>Price_ctx = 0, Source_ctx = ''CoinGecko''\<rparr> \<and> 100 \<le> returned_at out)"
proof
  have "length (channel ''bitcoin'' env_all_fail) = 3 \<and>
        (\<forall>d \<in> set (channel ''bitcoin'' env_all_fail). \<not> Price (snd d) > 0)"
    by (simp add: channel_all_fail)
  with all_fail_returns_after_all_adapters [of "channel ''bitcoin'' env_all_fail" "channel_ctx ''bitcoin'' env_all_fail"]
  obtain t where "fetchCryptoPriceConcurrently_on (channel ''bitcoin'' env_all_fail) =
          Some (t, \<lparr>Price = 0, Source = ''None'', Duration = 0\<rparr>)"
    and "\<forall>d \<in> set (channel ''bitcoin'' env_all_fail). fst d \<le> t"
    by blast
  then show "\<exists>t. fetchCryptoPriceConcurrently_on (channel ''bitcoin'' env_all_fail) =
          Some (t, \<lparr>Price = 0, Source = ''None'', Duration = 0\<rparr>) \<and> 300 \<le> t"
    by (auto simp: channel_all_fail)
next
  have "length (channel_ctx ''bitcoin'' env_all_fail) = 3 \<and>
        (\<forall>d \<in> set (channel_ctx ''bitcoin'' env_all_fail). \<not> Price_ctx (snd d) > 0 \<and> fst d < 10000)"
    by (simp add: channel_ctx_all_fail)
  with all_fail_returns_after_all_adapters [of "channel ''bitcoin'' env_all_fail" "channel_ctx ''bitcoin'' env_all_fail"]
  obtain out where "fetchCryptoPriceConcurrently_ctx_on (channel_ctx ''bitcoin'' env_all_fail) = Some out"
    and "returned out = snd (hd (channel_ctx ''bitcoin'' env_all_fail))"
    and "\<forall>d \<in> set (channel_ctx ''bitcoin'' env_all_fail). fst d \<le> returned_at out"
    by blast
  then show "\<exists>out. fetchCryptoPriceConcurrently_ctx_on (channel_ctx ''bitcoin'' env_all_fail) = Some out \<and>
      returned out = \<lparr>Price_ctx = 0, Source_ctx = ''CoinGecko''\<rparr> \<and> 100 \<le> returned_at out"
    by (auto simp: channel_ctx_all_fail)
qed

subsection \<open>The adapters\<close>

lemma fetchCryptoPrice_sends_zero:
  "fetchCryptoPrice request_ok resp parseFunc source ch = ch @ [\<lparr>Price_ctx = 0, Source_ctx = source\<rparr>]"
  by (simp add: fetchCryptoPrice_def json_Marshal_func_def split: reply.split)

text \<open>
  Claim C6. On every path each adapter sends exactly one result, tagged with its provider
  and (in \<^verbatim>\<open>src/main.go\<close>) the measured duration, and every failure (transport error, decode
  error, missing entry, empty list, unreadable price) gives price 0. The adapter of
  \<^verbatim>\<open>src/unnamed/part_000\<close> sends price 0 on every path.
\<close>

theorem adapter_sends_exactly_one:
  "(\<exists>r. fetchCryptoPriceFromCoingecko crypto d resp1 ch = ch @ [r] \<and>
        Source r = ''CoinGecko'' \<and> Duration r = d \<and>
        (resp1 = TransportError \<or> (\<exists>st. resp1 = Response st None) \<or>
         (\<exists>st m. resp1 = Response st (Some m) \<and> map_of m crypto = None) \<longrightarrow> Price r = 0)) \<and>
   (\<exists>r. fetchCryptoPriceFromCoinMarketCap crypto d resp2 ch = ch @ [r] \<and>
        Source r = ''CoinMarketCap'' \<and> Duration r = d \<and>
        (resp2 = TransportError \<or> (\<exists>st. resp2 = Response st None) \<or>
         (\<exists>st. resp2 = Response st (Some [])) \<or>
         (\<exists>st r0 rs. resp2 = Response st (Some (r0 # rs)) \<and> Sscanf_f (PriceUSD r0) = None)
           \<longrightarrow> Price r = 0)) \<and>
   (\<exists>r. fetchCryptoPriceFromCryptoCompare crypto d resp3 ch = ch @ [r] \<and>
        Source r = ''CryptoCompare'' \<and> Duration r = d \<and>
        (resp3 = TransportError \<or> (\<exists>st. resp3 = Response st None) \<longrightarrow> Price r = 0)) \<and>
   fetchCryptoPrice request_ok resp parseFunc source chc =
     chc @ [\<lparr>Price_ctx = 0, Source_ctx = source\<rparr>]"
proof (intro conjI)
  show "\<exists>r. fetchCryptoPriceFromCoingecko crypto d resp1 ch = ch @ [r] \<and>
        Source r = ''CoinGecko'' \<and> Duration r = d \<and>
        (resp1 = TransportError \<or> (\<exists>st. resp1 = Response st None) \<or>
         (\<exists>st m. resp1 = Response st (Some m) \<and> map_of m crypto = None) \<longrightarrow> Price r = 0)"
    by (auto simp: fetchCryptoPriceFromCoingecko_def split: reply.split option.split)
  show "\<exists>r. fetchCryptoPriceFromCoinMarketCap crypto d resp2 ch = ch @ [r] \<and>
        Source r = ''CoinMarketCap'' \<and> Duration r = d \<and>
        (resp2 = TransportError \<or> (\<exists>st. resp2 = Response st None) \<or>
         (\<exists>st. resp2 = Response st (Some [])) \<or>
         (\<exists>st r0 rs. resp2 = Response st (Some (r0 # rs)) \<and> Sscanf_f (PriceUSD r0) = None)
           \<longrightarrow> Price r = 0)"
    by (auto simp: fetchCryptoPriceFromCoinMarketCap_def Let_def split: reply.split option.split list.split)
  show "\<exists>r. fetchCryptoPriceFromCryptoCompare crypto d resp3 ch = ch @ [r] \<and>
        Source r = ''CryptoCompare'' \<and> Duration r = d \<and>
        (resp3 = TransportError \<or> (\<exists>st. resp3 = Response st None) \<longrightarrow> Price r = 0)"
    by (auto simp: fetchCryptoPriceFromCryptoCompare_def split: reply.split option.split)
  show "fetchCryptoPrice request_ok resp parseFunc source chc =
     chc @ [\<lparr>Price_ctx = 0, Source_ctx = source\<rparr>]"
    by (rule fetchCryptoPrice_sends_zero)
qed

theorem adapter_sends_exactly_one_witness:
  "fetchCryptoPriceFromCoingecko ''bitcoin'' 5 (Response 200 (Some [])) [] =
     [\<lparr>Price = 0, Source = ''CoinGecko'', Duration = 5\<rparr>] \<and>
   fetchCryptoPriceFromCoinMarketCap ''bitcoin'' 5 (Response 200 (Some [\<lparr>PriceUSD = []\<rparr>])) [] =
     [\<lparr>Price = 0, Source = ''CoinMarketCap'', Duration = 5\<rparr>] \<and>
   fetchCryptoPriceFromCryptoCompare ''bitcoin'' 5 TransportError [] =
     [\<lparr>Price = 0, Source = ''CryptoCompare'', Duration = 5\<rparr>]"
proof -
  have scan: "Sscanf_f (PriceUSD \<lparr>PriceUSD = []\<rparr>) = None"
    by (simp add: Sscanf_f_def accept_sign_def)
  note inst = adapter_sends_exactly_one [of "''bitcoin''" 5 "Response 200 (Some [])" "[]"
      "Response 200 (Some [\<lparr>PriceUSD = []\<rparr>])" TransportError]
  from inst [THEN conjunct1] obtain r1 where
    "fetchCryptoPriceFromCoingecko ''bitcoin'' 5 (Response 200 (Some [])) [] = [] @ [r1]"
    "Source r1 = ''CoinGecko''" "Duration r1 = 5" "Price r1 = 0"
    by auto
  moreover from inst [THEN conjunct2, THEN conjunct1] scan obtain r2 where
    "fetchCryptoPriceFromCoinMarketCap ''bitcoin'' 5 (Response 200 (Some [\<lparr>PriceUSD = []\<rparr>])) []
       = [] @ [r2]"
    "Source r2 = ''CoinMarketCap''" "Duration r2 = 5" "Price r2 = 0"
    by auto
  moreover from inst [THEN conjunct2, THEN conjunct2, THEN conjunct1] obtain r3 where
    "fetchCryptoPriceFromCryptoCompare ''bitcoin'' 5 TransportError [] = [] @ [r3]"
    "Source r3 = ''CryptoCompare''" "Duration r3 = 5" "Price r3 = 0"
    by auto
  ultimately show ?thesis by simp
qed

text \<open>
  Claim C5, as amended. The adapter of \<^verbatim>\<open>src/unnamed/part_000\<close> answers a status other than
  200 with a quote of price 0 tagged with its own source. The adapters of \<^verbatim>\<open>src/main.go\<close> do
  not look at the status: what they send is the same for every status code and is decided
  by the decoded body alone.
\<close>

theorem non_200_status:
  "(status \<noteq> 200 \<longrightarrow>
      fetchCryptoPrice request_ok (Response status body) parseFunc source chc =
        chc @ [\<lparr>Price_ctx = 0, Source_ctx = source\<rparr>]) \<and>
   fetchCryptoPriceFromCoingecko crypto d (Response status body1) ch =
     fetchCryptoPriceFromCoingecko crypto d (Response 200 body1) ch \<and>
   fetchCryptoPriceFromCoinMarketCap crypto d (Response status body2) ch =
     fetchCryptoPriceFromCoinMarketCap crypto d (Response 200 body2) ch \<and>
   fetchCryptoPriceFromCryptoCompare crypto d (Response status body3) ch =
     fetchCryptoPriceFromCryptoCompare crypto d (Response 200 body3) ch"
  by (simp add: fetchCryptoPrice_sends_zero fetchCryptoPriceFromCoingecko_def
      fetchCryptoPriceFromCoinMarketCap_def fetchCryptoPriceFromCryptoCompare_def)

theorem non_200_status_witness:
  "fetchCryptoPrice True (Response 404 (None :: coingecko_body option)) parseCoingecko ''CoinGecko'' [] =
     [\<lparr>Price_ctx = 0, Source_ctx = ''CoinGecko''\<rparr>]"
proof -
  have "(404::nat) \<noteq> 200" by simp
  with non_200_status [of 404 True "None :: coingecko_body option" parseCoingecko "''CoinGecko''" "[]"]
  show ?thesis by simp
qed

text \<open>
  Against the claim as written: in \<^verbatim>\<open>src/main.go\<close> a response with status 500 whose body
  decodes to \<^verbatim>\<open>{"bitcoin": {"usd": 42000.5}}\<close> gives a quote with price 42000.5.
\<close>

theorem coingecko_ignores_status_500:
  "fetchCryptoPriceFromCoingecko ''bitcoin'' 5
     (Response 500 (Some [(''bitcoin'', \<lparr>USD = 42000.5\<rparr>)])) [] =
   [\<lparr>Price = 42000.5, Source = ''CoinGecko'', Duration = 5\<rparr>]"
  by (simp add: fetchCryptoPriceFromCoingecko_def)

text \<open>
  Claim C7, as amended. In \<^verbatim>\<open>src/main.go\<close> the CoinGecko adapter takes the price from the
  entry of the decoded map whose key is the requested identifier, and sends price 0 when the
  map has no such entry; for \<^verbatim>\<open>bitcoin\<close> and \<^verbatim>\<open>{"bitcoin": {"usd": 42000.5}}\<close> the price is
  42000.5. \<^verbatim>\<open>parseCoingecko\<close> of \<^verbatim>\<open>src/unnamed/part_000\<close> is not given the identifier: it
  returns the price of the entry that the loop over the map visits first, whatever its key,
  and an error only when the map is empty (or the body does not decode).
\<close>

theorem coingecko_extraction:
  "fetchCryptoPriceFromCoingecko crypto d (Response st (Some m)) ch =
     ch @ [\<lparr>Price = (case map_of m crypto of Some p \<Rightarrow> USD p | None \<Rightarrow> 0),
             Source = ''CoinGecko'', Duration = d\<rparr>] \<and>
   fetchCryptoPriceFromCoingecko ''bitcoin'' d
       (Response st (Some [(''bitcoin'', \<lparr>USD = 42000.5\<rparr>)])) ch =
     ch @ [\<lparr>Price = 42000.5, Source = ''CoinGecko'', Duration = d\<rparr>] \<and>
   parseCoingecko (Some ((k, v) # rest)) = Inr (USD v) \<and>
   parseCoingecko (Some []) = Inl InvalidResponse \<and>
   parseCoingecko None = Inl DecodeError \<and>
   parseCoingecko (Some [(''bitcoin'', \<lparr>USD = 42000.5\<rparr>)]) = Inr 42000.5"
  by (simp add: fetchCryptoPriceFromCoingecko_def parseCoingecko_def split: option.split)

text \<open>
  Against the claim as written: \<^verbatim>\<open>parseCoingecko\<close> returns 3000 for a body that holds only the
  key \<^verbatim>\<open>ethereum\<close>, whatever identifier was asked for.
\<close>

theorem parseCoingecko_takes_any_key:
  "map_of [(''ethereum'', \<lparr>USD = 3000\<rparr>)] ''bitcoin'' = None \<and>
   parseCoingecko (Some [(''ethereum'', \<lparr>USD = 3000\<rparr>)]) = Inr 3000"
  by (simp add: parseCoingecko_def)


lemma Sscanf_f_examples:
  "Sscanf_f ''42000.50'' = Some 42000.50"
  "Sscanf_f ''12abc'' = Some 12"
  by (simp_all add: Sscanf_f_def accept_sign_def is_digit_def digits_val_def digit_val_def)




subsection \<open>The deadline\<close>

lemma fold_min_le: "fold min ts (a::nat) \<le> a"
  by (induction ts arbitrary: a) (auto intro: order_trans [OF _ min.cobounded2])

lemma fold_min_le_all: "\<forall>t \<in> set ts. fold min ts (a::nat) \<le> t"
proof (induction ts arbitrary: a)
  case Nil
  then show ?case by simp
next
  case (Cons b ts)
  have "fold min ts (min b a) \<le> min b a" by (rule fold_min_le)
  also have "\<dots> \<le> b" by simp
  finally show ?case using Cons.IH by simp
qed

lemma fold_min_ge: "\<forall>t \<in> set ts. b \<le> t \<Longrightarrow> b \<le> a \<Longrightarrow> b \<le> fold min ts (a::nat)"
  by (induction ts arbitrary: a) auto

lemma fold_max_le: "\<forall>t \<in> set ts. t \<le> b \<Longrightarrow> a \<le> b \<Longrightarrow> fold max ts (a::nat) \<le> b"
  by (induction ts arbitrary: a) auto

lemma context_cancelled_le: "context_cancelled crypto env \<le> 10000"
  unfolding context_cancelled_def by (rule fold_min_le)

lemma context_cancelled_timer:
  "\<forall>t \<in> set (first_sends crypto env). 10000 \<le> t \<Longrightarrow> context_cancelled crypto env = 10000"
  unfolding context_cancelled_def
  by (intro antisym fold_min_le fold_min_ge) auto

lemma sends_ctx_entry:
  "d \<in> set (sends_ctx tc request_ok c parseFunc source) \<Longrightarrow>
   snd d = \<lparr>Price_ctx = 0, Source_ctx = source\<rparr> \<and> fst d \<le> tc \<and> first_send request_ok c = Some (fst d)"
  by (auto simp: sends_ctx_def first_send_def fetchCryptoPrice_sends_zero split: if_splits option.splits)

lemma abandoned_ctx_entry:
  "d \<in> set (abandoned_ctx tc request_ok c parseFunc source) \<Longrightarrow>
   snd d = \<lparr>Price_ctx = 0, Source_ctx = source\<rparr> \<and> fst d = tc"
  by (auto simp: abandoned_ctx_def fetchCryptoPrice_sends_zero split: if_splits)

lemma length_sends_abandoned_ctx:
  "length (sends_ctx tc request_ok c parseFunc source) +
   length (abandoned_ctx tc request_ok c parseFunc source) = 1"
  by (auto simp: sends_ctx_def abandoned_ctx_def fetchCryptoPrice_sends_zero split: option.splits)

lemma length_channel_ctx: "length (channel_ctx crypto env) = 3"
  using length_sends_abandoned_ctx [of "context_cancelled crypto env"
          "new_request env (coingeckoAPI crypto)" "coingecko_call env" parseCoingecko "''CoinGecko''"]
        length_sends_abandoned_ctx [of "context_cancelled crypto env"
          "new_request env (coinmarketcapAPI crypto)" "coinmarketcap_call env" parseCoinMarketCap "''CoinMarketCap''"]
        length_sends_abandoned_ctx [of "context_cancelled crypto env"
          "new_request env (cryptocompareAPI crypto)" "cryptocompare_call env" parseCryptoCompare "''CryptoCompare''"]
  by (simp add: channel_ctx_def Let_def)

lemma first_send_in_first_sends:
  "first_send (new_request env (coingeckoAPI crypto)) (coingecko_call env) = Some t \<Longrightarrow>
     t \<in> set (first_sends crypto env)"
  "first_send (new_request env (coinmarketcapAPI crypto)) (coinmarketcap_call env) = Some t \<Longrightarrow>
     t \<in> set (first_sends crypto env)"
  "first_send (new_request env (cryptocompareAPI crypto)) (cryptocompare_call env) = Some t \<Longrightarrow>
     t \<in> set (first_sends crypto env)"
  by (auto simp: first_sends_def List.map_filter_simps split: option.splits)

lemma channel_ctx_entry:
  assumes "d \<in> set (channel_ctx crypto env)"
  shows "Price_ctx (snd d) = 0 \<and> fst d \<le> context_cancelled crypto env \<and>
         (fst d = context_cancelled crypto env \<or> fst d \<in> set (first_sends crypto env))"
  using assms
  by (auto simp: channel_ctx_def Let_def
      dest!: sends_ctx_entry abandoned_ctx_entry dest: first_send_in_first_sends)

lemma ctx_on_all_zero:
  assumes len: "length ch = 3" and zero: "\<forall>d \<in> set ch. Price_ctx (snd d) = 0"
  shows "\<exists>out. fetchCryptoPriceConcurrently_ctx_on ch = Some out \<and>
           Price_ctx (returned out) = 0 \<and>
           returned out = fst (select_ctx ch) \<and>
           cancelled_at out = fst (snd (select_ctx ch)) \<and>
           returned_at out = fold max (map fst ch) (fst (snd (select_ctx ch)))"
proof -
  obtain d rest where ch: "ch = d # rest" using len by (cases ch) auto
  have "set (snd (snd (select_ctx ch))) \<subseteq> set ch"
    by (auto simp: select_ctx_def ch split: prod.splits if_splits)
  with zero have "\<forall>d \<in> set (snd (snd (select_ctx ch))). \<not> Price_ctx (snd d) > 0"
    by fastforce
  then have "filter (\<lambda>r. Price_ctx r > 0) (map snd (snd (snd (select_ctx ch)))) = []"
    by (auto simp: filter_empty_conv)
  then have dr: "drain (fst (select_ctx ch)) (map snd (snd (snd (select_ctx ch)))) = fst (select_ctx ch)"
    by (simp add: drain_filter)
  have "Price_ctx (fst (select_ctx ch)) = 0"
    using zero by (auto simp: select_ctx_def ch split: prod.splits)
  moreover have "3 \<le> length ch" using len by simp
  ultimately show ?thesis using ctx_on_returned [of ch] dr by auto
qed

lemma select_ctx_cancel_le: "fst (snd (select_ctx ch)) \<le> 10000"
  by (auto simp: select_ctx_def split: list.splits prod.splits)

lemma select_ctx_timer:
  "\<forall>d \<in> set ch. 10000 \<le> fst d \<Longrightarrow>
   select_ctx ch = (\<lparr>Price_ctx = 0, Source_ctx = []\<rparr>, 10000, ch)"
  by (auto simp: select_ctx_def split: list.splits prod.splits)

lemma fold_max_const: "\<forall>t \<in> set ts. t = (a::nat) \<Longrightarrow> fold max ts a = a"
  by (induction ts) auto

lemma part_000_never_prices:
  "\<exists>out. fetchCryptoPriceConcurrently_ctx crypto env = Some out \<and> Price_ctx (returned out) = 0"
  using ctx_on_all_zero [OF length_channel_ctx, of crypto env] channel_ctx_entry [of _ crypto env]
  unfolding fetchCryptoPriceConcurrently_ctx_def by blast

lemma part_000_deadline:
  "\<exists>out. fetchCryptoPriceConcurrently_ctx crypto env = Some out \<and> returned_at out \<le> 10000"
proof -
  have le: "\<forall>d \<in> set (channel_ctx crypto env). fst d \<le> 10000"
    using channel_ctx_entry [of _ crypto env] context_cancelled_le [of crypto env]
    by (auto intro: order_trans)
  from ctx_on_all_zero [OF length_channel_ctx, of crypto env] channel_ctx_entry [of _ crypto env]
  obtain out where out: "fetchCryptoPriceConcurrently_ctx_on (channel_ctx crypto env) = Some out"
    "returned_at out = fold max (map fst (channel_ctx crypto env)) (fst (snd (select_ctx (channel_ctx crypto env))))"
    by blast
  have "returned_at out \<le> 10000"
    unfolding out(2) using le by (intro fold_max_le select_ctx_cancel_le) simp
  with out(1) show ?thesis by (simp add: fetchCryptoPriceConcurrently_ctx_def)
qed

lemma part_000_timer_fires:
  assumes "\<forall>t \<in> set (first_sends crypto env). 10000 \<le> t"
  shows "fetchCryptoPriceConcurrently_ctx crypto env =
           Some \<lparr>cancelled_at = 10000, returned_at = 10000,
                 returned = \<lparr>Price_ctx = 0, Source_ctx = []\<rparr>\<rparr>"
proof -
  have tc: "context_cancelled crypto env = 10000"
    using assms by (rule context_cancelled_timer)
  have eq: "\<forall>d \<in> set (channel_ctx crypto env). fst d = 10000"
    using channel_ctx_entry [of _ crypto env] assms tc by fastforce
  then have sel: "select_ctx (channel_ctx crypto env) =
      (\<lparr>Price_ctx = 0, Source_ctx = []\<rparr>, 10000, channel_ctx crypto env)"
    by (intro select_ctx_timer) simp
  from ctx_on_all_zero [OF length_channel_ctx, of crypto env] channel_ctx_entry [of _ crypto env]
  obtain out where out: "fetchCryptoPriceConcurrently_ctx_on (channel_ctx crypto env) = Some out"
    "returned out = fst (select_ctx (channel_ctx crypto env))"
    "cancelled_at out = fst (snd (select_ctx (channel_ctx crypto env)))"
    "returned_at out = fold max (map fst (channel_ctx crypto env)) (fst (snd (select_ctx (channel_ctx crypto env))))"
    by blast
  have "returned_at out = 10000"
    unfolding out(4) sel using eq by (simp add: fold_max_const)
  with out sel show ?thesis
    by (simp add: fetchCryptoPriceConcurrently_ctx_def)
qed

lemma main_go_without_positive_quote:
  assumes "\<forall>d \<in> set (channel crypto env). \<not> Price (snd d) > 0"
  shows "fetchCryptoPriceConcurrently crypto env =
           (if coingecko_call env \<noteq> None \<and> coinmarketcap_call env \<noteq> None \<and>
               cryptocompare_call env \<noteq> None
            then Some (fold max (map fst (channel crypto env)) 0,
                       \<lparr>Price = 0, Source = ''None'', Duration = 0\<rparr>)
            else None)"
proof -
  have "find (\<lambda>d. Price (snd d) > 0) (channel crypto env) = None"
    using assms by (auto simp: find_None_iff)
  from range_ch_none [OF this, of 3 0] show ?thesis
    by (simp add: fetchCryptoPriceConcurrently_def fetchCryptoPriceConcurrently_on_def length_channel)
qed

text \<open>
  Claim C3, as amended. \<^verbatim>\<open>src/unnamed/part_000\<close> bounds every race by one timer of 10 seconds
  started with the race: it always returns, within 10 seconds (a request abandoned at the
  cancellation returns at once), and when no adapter has sent before the timer fires it
  returns price 0 with an empty source at the deadline. \<^verbatim>\<open>src/main.go\<close> has no deadline: when
  no quote is positive it returns the sentinel once all three adapters have finished, at the
  time of the last send, however late, and never if one of them never finishes.
\<close>

theorem race_deadline:
  "(\<exists>out. fetchCryptoPriceConcurrently_ctx crypto env = Some out \<and> returned_at out \<le> 10000) \<and>
   ((\<forall>t \<in> set (first_sends crypto env). 10000 \<le> t) \<longrightarrow>
      fetchCryptoPriceConcurrently_ctx crypto env =
        Some \<lparr>cancelled_at = 10000, returned_at = 10000,
              returned = \<lparr>Price_ctx = 0, Source_ctx = []\<rparr>\<rparr>) \<and>
   ((\<forall>d \<in> set (channel crypto env). \<not> Price (snd d) > 0) \<longrightarrow>
      fetchCryptoPriceConcurrently crypto env =
        (if coingecko_call env \<noteq> None \<and> coinmarketcap_call env \<noteq> None \<and>
            cryptocompare_call env \<noteq> None
         then Some (fold max (map fst (channel crypto env)) 0,
                    \<lparr>Price = 0, Source = ''None'', Duration = 0\<rparr>)
         else None))"
  using part_000_deadline [of crypto env] part_000_timer_fires [of crypto env]
    main_go_without_positive_quote [of crypto env]
  by blast

lemma channel_slow:
  "channel ''bitcoin'' env_slow =
     [(20000, \<lparr>Price = 0, Source = ''CoinGecko'', Duration = 20000000000\<rparr>),
      (25000, \<lparr>Price = 0, Source = ''CoinMarketCap'', Duration = 25000000000\<rparr>),
      (30000, \<lparr>Price = 0, Source = ''CryptoCompare'', Duration = 30000000000\<rparr>)]"
  by (simp add: channel_def env_slow_def sends_def fetchCryptoPriceFromCoingecko_def
      fetchCryptoPriceFromCoinMarketCap_def fetchCryptoPriceFromCryptoCompare_def)

lemma channel_hang: "channel ''bitcoin'' env_hang = []"
  by (simp add: channel_def env_hang_def sends_def)

theorem race_deadline_witness:
  "fetchCryptoPriceConcurrently_ctx ''bitcoin'' env_hang =
     Some \<lparr>cancelled_at = 10000, returned_at = 10000,
           returned = \<lparr>Price_ctx = 0, Source_ctx = []\<rparr>\<rparr> \<and>
   fetchCryptoPriceConcurrently ''bitcoin'' env_slow =
     Some (30000, \<lparr>Price = 0, Source = ''None'', Duration = 0\<rparr>)"
proof
  have "\<forall>t \<in> set (first_sends ''bitcoin'' env_hang). 10000 \<le> t"
    by (simp add: first_sends_def first_send_def env_hang_def List.map_filter_simps)
  with race_deadline [of "''bitcoin''" env_hang]
  show "fetchCryptoPriceConcurrently_ctx ''bitcoin'' env_hang =
     Some \<lparr>cancelled_at = 10000, returned_at = 10000,
           returned = \<lparr>Price_ctx = 0, Source_ctx = []\<rparr>\<rparr>"
    by blast
next
  have "\<forall>d \<in> set (channel ''bitcoin'' env_slow). \<not> Price (snd d) > 0"
    by (simp add: channel_slow)
  with race_deadline [of "''bitcoin''" env_slow]
  have "fetchCryptoPriceConcurrently ''bitcoin'' env_slow =
        (if coingecko_call env_slow \<noteq> None \<and> coinmarketcap_call env_slow \<noteq> None \<and>
            cryptocompare_call env_slow \<noteq> None
         then Some (fold max (map fst (channel ''bitcoin'' env_slow)) 0,
                    \<lparr>Price = 0, Source = ''None'', Duration = 0\<rparr>)
         else None)"
    by blast
  then show "fetchCryptoPriceConcurrently ''bitcoin'' env_slow =
     Some (30000, \<lparr>Price = 0, Source = ''None'', Duration = 0\<rparr>)"
    by (simp add: channel_slow) (simp add: env_slow_def)
qed

text \<open>
  Against the claim as written: in \<^verbatim>\<open>src/main.go\<close> a race whose requests fail after 20, 25
  and 30 seconds returns at 30 seconds, and a race whose requests never return never returns.
\<close>

theorem main_go_has_no_deadline:
  "fetchCryptoPriceConcurrently ''bitcoin'' env_slow =
     Some (30000, \<lparr>Price = 0, Source = ''None'', Duration = 0\<rparr>) \<and>
   fetchCryptoPriceConcurrently ''bitcoin'' env_hang = None"
  by (simp add: fetchCryptoPriceConcurrently_def fetchCryptoPriceConcurrently_on_def
      channel_slow channel_hang numeral_3_eq_3)

subsection \<open>Cancellation\<close>






subsection \<open>The two revisions compared\<close>









text \<open>
  With three successful responses \<^verbatim>\<open>src/main.go\<close> returns the first price, while
  \<^verbatim>\<open>src/unnamed/part_000\<close> returns price 0: its adapter never reaches its parser.
\<close>

lemma channel_all_ok:
  "channel ''bitcoin'' env_all_ok =
     [(100, \<lparr>Price = 42000.5, Source = ''CoinGecko'', Duration = 100000000\<rparr>),
      (200, \<lparr>Price = 42000.5, Source = ''CoinMarketCap'', Duration = 200000000\<rparr>),
      (300, \<lparr>Price = 42000.5, Source = ''CryptoCompare'', Duration = 300000000\<rparr>)]"
  by (simp add: channel_def env_all_ok_def sends_def fetchCryptoPriceFromCoingecko_def
      fetchCryptoPriceFromCoinMarketCap_def fetchCryptoPriceFromCryptoCompare_def
      Sscanf_f_examples(1))

lemma channel_ctx_all_ok:
  "channel_ctx ''bitcoin'' env_all_ok =
     [(100, \<lparr>Price_ctx = 0, Source_ctx = ''CoinGecko''\<rparr>),
      (100, \<lparr>Price_ctx = 0, Source_ctx = ''CoinMarketCap''\<rparr>),
      (100, \<lparr>Price_ctx = 0, Source_ctx = ''CryptoCompare''\<rparr>)]"
  by (simp add: channel_ctx_def context_cancelled_def first_sends_def
      first_send_def env_all_ok_def sends_ctx_def abandoned_ctx_def fetchCryptoPrice_sends_zero)

lemma revisions_on_three_successes:
  "fetchCryptoPriceConcurrently ''bitcoin'' env_all_ok =
     Some (100, \<lparr>Price = 42000.5, Source = ''CoinGecko'', Duration = 100000000\<rparr>) \<and>
   fetchCryptoPriceConcurrently_ctx ''bitcoin'' env_all_ok =
     Some \<lparr>cancelled_at = 100, returned_at = 100,
           returned = \<lparr>Price_ctx = 0, Source_ctx = ''CoinGecko''\<rparr>\<rparr>"
  by (simp add: fetchCryptoPriceConcurrently_def fetchCryptoPriceConcurrently_on_def
      fetchCryptoPriceConcurrently_ctx_def fetchCryptoPriceConcurrently_ctx_on_def
      channel_all_ok channel_ctx_all_ok select_ctx_def numeral_3_eq_3)

end
